theory Spec2Isabelle
  imports Main "HOL-Library.Word"
begin

section \<open>Strings of the host language\<close>

text \<open>
  A JavaScript string is a sequence of UTF-16 code units: \<open>length\<close>, \<open>slice\<close> and
  \<open>trim\<close> all count and inspect code units. The Korean literals of the source are
  therefore written out as their code units.
\<close>

type_synonym jsstring = "16 word list"

text \<open>
  \<open>String.prototype.trim\<close> strips WhiteSpace and LineTerminator code units
  (ECMAScript: TAB, LF, VT, FF, CR, SP, NBSP, the Zs category, LS, PS and the BOM)
  from both ends.
\<close>

definition isWhiteSpace :: "16 word \<Rightarrow> bool" where
  "isWhiteSpace c \<longleftrightarrow>
     c = 0x09 \<or> c = 0x0A \<or> c = 0x0B \<or> c = 0x0C \<or> c = 0x0D \<or> c = 0x20 \<or> c = 0xA0 \<or>
     c = 0x1680 \<or> (0x2000 \<le> c \<and> c \<le> 0x200A) \<or> c = 0x2028 \<or> c = 0x2029 \<or>
     c = 0x202F \<or> c = 0x205F \<or> c = 0x3000 \<or> c = 0xFEFF"

definition trim :: "jsstring \<Rightarrow> jsstring" where
  "trim s = rev (dropWhile isWhiteSpace (rev (dropWhile isWhiteSpace s)))"

text \<open>\<open>s.slice(0, n)\<close> for a non-negative literal \<open>n\<close>: the first \<open>n\<close> code units.\<close>

definition slice0 :: "nat \<Rightarrow> 'a list \<Rightarrow> 'a list" where
  "slice0 n s = take n s"

text \<open>A string is falsy exactly when it is empty.\<close>

definition truthy :: "jsstring \<Rightarrow> bool" where
  "truthy s \<longleftrightarrow> s \<noteq> []"

text \<open>\<open>Number.prototype.toString\<close> on the non-negative integer \<open>Date.now()\<close>.\<close>

definition digit :: "nat \<Rightarrow> 16 word" where
  "digit d = of_nat (48 + d)"

fun toString :: "nat \<Rightarrow> jsstring" where
  "toString n = (if n < 10 then [digit n] else toString (n div 10) @ [digit (n mod 10)])"

declare toString.simps [simp del]

text \<open>The string literals of the source.\<close>

definition ellipsis :: jsstring where
  "ellipsis = [0x2E, 0x2E, 0x2E]"

definition API_KEY_ERROR :: jsstring where
  "API_KEY_ERROR = [0x41, 0x50, 0x49, 0x5F, 0x4B, 0x45, 0x59, 0x5F, 0x45, 0x52, 0x52, 0x4F, 0x52]"

text \<open>The text returned in place of an empty response (geminiService.ts, line 46).\<close>

definition emptyResponseMessage :: jsstring where
  "emptyResponseMessage =
     [0xB0B4, 0xC6A9, 0xC744, 0x20, 0xC815, 0xB9AC, 0xD558, 0xB294, 0x20, 0xB370, 0x20,
      0xC2E4, 0xD328, 0xD588, 0xC2B5, 0xB2C8, 0xB2E4, 0x2E]"

text \<open>The message of the error the service wrapper throws (geminiService.ts, line 49).\<close>

definition serviceFailureMessage :: jsstring where
  "serviceFailureMessage =
     [0xB178, 0xD2B8, 0xB97C, 0x20, 0xC815, 0xB9AC, 0xD560, 0x20, 0xC218, 0x20, 0xC5C6,
      0xC2B5, 0xB2C8, 0xB2E4, 0x2E, 0x20, 0xC5F0, 0xACB0, 0x20, 0xC0C1, 0xD0DC, 0xB97C,
      0x20, 0xD655, 0xC778, 0xD558, 0xAC70, 0xB098, 0x20, 0xC7A0, 0xC2DC, 0x20, 0xD6C4,
      0x20, 0xB2E4, 0xC2DC, 0x20, 0xC2DC, 0xB3C4, 0xD574, 0xC8FC, 0xC138, 0xC694, 0x2E]"

text \<open>The alert shown for a thrown value that is not an Error (part_000, lines 77 and 442).\<close>

definition genericErrorMessage :: jsstring where
  "genericErrorMessage =
     [0xC624, 0xB958, 0xAC00, 0x20, 0xBC1C, 0xC0DD, 0xD588, 0xC2B5, 0xB2C8, 0xB2E4, 0x2E]"

text \<open>The alert of the credential branch (part_000, line 440).\<close>

definition apiKeyAlertMessage :: jsstring where
  "apiKeyAlertMessage =
     [0xC120, 0xD0DD, 0xB41C, 0x20, 0x41, 0x50, 0x49, 0x20, 0xD0A4, 0xC5D0, 0x20, 0xBB38,
      0xC81C, 0xAC00, 0x20, 0xC788, 0xC2B5, 0xB2C8, 0xB2E4, 0x2E, 0x20, 0xB2E4, 0xC2DC,
      0x20, 0xC120, 0xD0DD, 0xD574, 0xC8FC, 0xC138, 0xC694, 0x2E]"


section \<open>Data model (types.ts)\<close>

datatype LogTemplate = PROFESSIONAL | HR | COUNSELING | CASUAL

text \<open>
  The fields \<open>id\<close> and \<open>template\<close> of \<open>InterviewLog\<close> carry the suffix \<open>_log\<close>:
  \<open>id\<close> is a constant of HOL and \<open>template\<close> is also a field of the component state.
\<close>

record InterviewLog =
  id_log :: jsstring
  title :: jsstring
  date :: jsstring
  originalText :: jsstring
  organizedText :: jsstring
  template_log :: LogTemplate


section \<open>Component state and its environment (part_000)\<close>

text \<open>The \<open>useState\<close> cells of the first \<open>App\<close> component (lines 22 to 28).\<close>

record app_state =
  inputText :: jsstring
  organizedContent :: jsstring
  template :: LogTemplate
  isProcessing :: bool
  history :: "InterviewLog list"
  selectedLogId :: "jsstring option"
  showCopyToast :: bool

text \<open>The second \<open>App\<close> component (lines 364 to 372) has one more cell.\<close>

record keyed_state = app_state +
  isKeySelected :: "bool option"

text \<open>
  The value under \<open>STORAGE_KEY\<close> in \<open>localStorage\<close>: either the JSON text of a list of
  logs, which \<open>JSON.parse\<close> reads back, or some other text.
\<close>

datatype stored = Serialized "InterviewLog list" | Unparsable

text \<open>
  What the handlers do to the world outside the component: the storage slot, the
  messages passed to \<open>alert\<close> (oldest first) and the calls made to
  \<open>organizeInterviewNotes\<close> (oldest first). \<open>localStorage.setItem\<close> is taken to succeed.
\<close>

record env =
  storage :: "stored option"
  alerts :: "jsstring list"
  requests :: "(jsstring \<times> LogTemplate) list"

definition initial_state :: app_state where
  "initial_state =
     \<lparr> inputText = [], organizedContent = [], template = PROFESSIONAL, isProcessing = False,
       history = [], selectedLogId = None, showCopyToast = False \<rparr>"

text \<open>The effect that loads the history on mount (lines 31 to 40).\<close>

definition loadHistory :: "env \<Rightarrow> 'a app_state_scheme \<Rightarrow> 'a app_state_scheme" where
  "loadHistory e s =
     (case storage e of
        None \<Rightarrow> s
      | Some (Serialized logs) \<Rightarrow> s\<lparr>history := logs\<rparr>
      | Some Unparsable \<Rightarrow> s)"


section \<open>History store\<close>

text \<open>\<open>[newLog, ...history].slice(0, 20)\<close> (line 44).\<close>

definition appendLog :: "InterviewLog \<Rightarrow> InterviewLog list \<Rightarrow> InterviewLog list" where
  "appendLog newLog h = slice0 20 (newLog # h)"

text \<open>
  \<open>saveToHistory\<close> (lines 43 to 47). The callback closes over the \<open>history\<close> of the
  render that created it, so that list is an argument of its own.
\<close>

definition saveToHistory ::
  "InterviewLog list \<Rightarrow> InterviewLog \<Rightarrow> 'a app_state_scheme \<times> env \<Rightarrow> 'a app_state_scheme \<times> env" where
  "saveToHistory h newLog = (\<lambda>(s, e).
     (let updated = appendLog newLog h
      in (s\<lparr>history := updated\<rparr>, e\<lparr>storage := Some (Serialized updated)\<rparr>)))"

text \<open>\<open>handleNewLog\<close> (lines 50 to 55).\<close>

definition handleNewLog :: "'a app_state_scheme \<Rightarrow> 'a app_state_scheme" where
  "handleNewLog s =
     s\<lparr>inputText := [], organizedContent := [], selectedLogId := None, template := PROFESSIONAL\<rparr>"

text \<open>\<open>selectHistoryItem\<close> (lines 110 to 115).\<close>

definition selectHistoryItem :: "InterviewLog \<Rightarrow> 'a app_state_scheme \<Rightarrow> 'a app_state_scheme" where
  "selectHistoryItem log s =
     s\<lparr>inputText := originalText log, organizedContent := organizedText log,
       template := template_log log, selectedLogId := Some (id_log log)\<rparr>"

text \<open>
  \<open>deleteHistoryItem\<close> (lines 117 to 127); \<open>confirmed\<close> is the answer to \<open>confirm\<close>.
\<close>

definition deleteHistoryItem ::
  "bool \<Rightarrow> jsstring \<Rightarrow> 'a app_state_scheme \<times> env \<Rightarrow> 'a app_state_scheme \<times> env" where
  "deleteHistoryItem confirmed i = (\<lambda>(s, e).
     if confirmed then
       (let updated = filter (\<lambda>h. id_log h \<noteq> i) (history s);
            s1 = s\<lparr>history := updated\<rparr>;
            e1 = e\<lparr>storage := Some (Serialized updated)\<rparr>
        in if selectedLogId s = Some i then (handleNewLog s1, e1) else (s1, e1))
     else (s, e))"

text \<open>\<open>confirmClear\<close> (lines 83 to 91).\<close>

definition confirmClear :: "bool \<Rightarrow> 'a app_state_scheme \<Rightarrow> 'a app_state_scheme" where
  "confirmClear confirmed s =
     (if truthy (trim (inputText s)) \<or> truthy (organizedContent s)
      then (if confirmed then handleNewLog s else s)
      else handleNewLog s)"


section \<open>The service wrapper (geminiService.ts)\<close>

text \<open>
  A value that can be thrown: an \<open>Error\<close> with its message, \<open>null\<close> or \<open>undefined\<close>, or
  any other value with the string found under its \<open>message\<close> property, if any.
\<close>

datatype thrown = ErrorObj jsstring | Nullish | OtherValue "jsstring option"

datatype 'a outcome = Resolved 'a | Rejected thrown

text \<open>
  \<open>organizeInterviewNotes\<close> (lines 4 to 50). The client constructor runs outside the
  \<open>try\<close>, so what it throws leaves the function as it is; \<open>api\<close> is the outcome of the
  awaited \<open>generateContent\<close> with the \<open>text\<close> of its response (\<open>None\<close> for \<open>undefined\<close>).
  The prompt built from the text and the template goes to the API only: what the API
  answers is an argument here, so the prompt is left out.
\<close>

definition organizeInterviewNotes ::
  "thrown option \<Rightarrow> jsstring option outcome \<Rightarrow> jsstring outcome" where
  "organizeInterviewNotes ctor api =
     (case ctor of
        Some err \<Rightarrow> Rejected err
      | None \<Rightarrow>
          (case api of
             Resolved txt \<Rightarrow>
               Resolved (case txt of
                           None \<Rightarrow> emptyResponseMessage
                         | Some t \<Rightarrow> if truthy t then t else emptyResponseMessage)
           | Rejected err \<Rightarrow> Rejected (ErrorObj serviceFailureMessage)))"


section \<open>Conversion controller\<close>

text \<open>The title of a new log (lines 67 and 428).\<close>

definition deriveTitle :: "jsstring \<Rightarrow> jsstring" where
  "deriveTitle txt = trim (slice0 25 txt) @ (if length txt > 25 then ellipsis else [])"

text \<open>
  What a running \<open>handleOrganize\<close> holds on to across its \<open>await\<close>: the cells of the
  render in which the button was clicked.
\<close>

record captured =
  cap_inputText :: jsstring
  cap_template :: LogTemplate
  cap_history :: "InterviewLog list"

text \<open>
  \<open>handleOrganize\<close> up to its \<open>await\<close> (lines 58 to 62): the guard, the flag and the
  call of the service. The third component is the suspended rest of the handler, if any.
\<close>

definition handleOrganize_begin ::
  "'a app_state_scheme \<times> env \<Rightarrow> ('a app_state_scheme \<times> env) \<times> captured option" where
  "handleOrganize_begin = (\<lambda>(s, e).
     if \<not> truthy (trim (inputText s)) then ((s, e), None)
     else ((s\<lparr>isProcessing := True\<rparr>,
            e\<lparr>requests := requests e @ [(inputText s, template s)]\<rparr>),
           Some \<lparr>cap_inputText = inputText s, cap_template = template s,
                 cap_history = history s\<rparr>))"

text \<open>The log built on success (lines 65 to 72); \<open>now\<close> is \<open>Date.now()\<close>, \<open>today\<close> the formatted date.\<close>

definition newLog :: "captured \<Rightarrow> jsstring \<Rightarrow> nat \<Rightarrow> jsstring \<Rightarrow> InterviewLog" where
  "newLog c result now today =
     \<lparr> id_log = toString now,
       title = deriveTitle (cap_inputText c),
       date = today,
       originalText = cap_inputText c,
       organizedText = result,
       template_log = cap_template c \<rparr>"

text \<open>The \<open>try\<close> body after the \<open>await\<close> has resolved (lines 63 to 75).\<close>

definition organize_success ::
  "captured \<Rightarrow> jsstring \<Rightarrow> nat \<Rightarrow> jsstring \<Rightarrow> 'a app_state_scheme \<times> env \<Rightarrow> 'a app_state_scheme \<times> env" where
  "organize_success c result now today = (\<lambda>(s, e).
     (let l = newLog c result now today;
          (s1, e1) = saveToHistory (cap_history c) l (s\<lparr>organizedContent := result\<rparr>, e)
      in (s1\<lparr>selectedLogId := Some (id_log l)\<rparr>, e1)))"

text \<open>The message of the first component's \<open>catch\<close> (line 77).\<close>

definition alertText :: "thrown \<Rightarrow> jsstring" where
  "alertText err = (case err of ErrorObj m \<Rightarrow> m | _ \<Rightarrow> genericErrorMessage)"

text \<open>
  The rest of the first component's \<open>handleOrganize\<close> once the service has settled
  (lines 63 to 80), run on the state of that moment.
\<close>

definition handleOrganize_settle ::
  "captured \<Rightarrow> jsstring outcome \<Rightarrow> nat \<Rightarrow> jsstring \<Rightarrow> 'a app_state_scheme \<times> env \<Rightarrow> 'a app_state_scheme \<times> env" where
  "handleOrganize_settle c out now today = (\<lambda>(s, e).
     (let (s1, e1) =
            (case out of
               Resolved result \<Rightarrow> organize_success c result now today (s, e)
             | Rejected err \<Rightarrow> (s, e\<lparr>alerts := alerts e @ [alertText err]\<rparr>))
      in (s1\<lparr>isProcessing := False\<rparr>, e1)))"

text \<open>
  The same for the second component (lines 424 to 446). Reading \<open>message\<close> off \<open>null\<close>
  or \<open>undefined\<close> throws inside the \<open>catch\<close>, so no alert is shown then; \<open>finally\<close>
  still runs.
\<close>

definition handleOrganize_settle_keyed ::
  "captured \<Rightarrow> jsstring outcome \<Rightarrow> nat \<Rightarrow> jsstring \<Rightarrow> 'a keyed_state_scheme \<times> env \<Rightarrow> 'a keyed_state_scheme \<times> env" where
  "handleOrganize_settle_keyed c out now today = (\<lambda>(s, e).
     (let (s1, e1) =
            (case out of
               Resolved result \<Rightarrow> organize_success c result now today (s, e)
             | Rejected Nullish \<Rightarrow> (s, e)
             | Rejected (ErrorObj m) \<Rightarrow>
                 if m = API_KEY_ERROR
                 then (s\<lparr>isKeySelected := Some False\<rparr>, e\<lparr>alerts := alerts e @ [apiKeyAlertMessage]\<rparr>)
                 else (s, e\<lparr>alerts := alerts e @ [m]\<rparr>)
             | Rejected (OtherValue p) \<Rightarrow>
                 if p = Some API_KEY_ERROR
                 then (s\<lparr>isKeySelected := Some False\<rparr>, e\<lparr>alerts := alerts e @ [apiKeyAlertMessage]\<rparr>)
                 else (s, e\<lparr>alerts := alerts e @ [genericErrorMessage]\<rparr>))
      in (s1\<lparr>isProcessing := False\<rparr>, e1)))"

text \<open>
  A whole run of \<open>handleOrganize\<close> with nothing happening between the call of the
  service and its settling.
\<close>

definition handleOrganize ::
  "jsstring outcome \<Rightarrow> nat \<Rightarrow> jsstring \<Rightarrow> 'a app_state_scheme \<times> env \<Rightarrow> 'a app_state_scheme \<times> env" where
  "handleOrganize out now today se =
     (case handleOrganize_begin se of
        (se1, None) \<Rightarrow> se1
      | (se1, Some c) \<Rightarrow> handleOrganize_settle c out now today se1)"

definition handleOrganize_keyed ::
  "jsstring outcome \<Rightarrow> nat \<Rightarrow> jsstring \<Rightarrow> 'a keyed_state_scheme \<times> env \<Rightarrow> 'a keyed_state_scheme \<times> env" where
  "handleOrganize_keyed out now today se =
     (case handleOrganize_begin se of
        (se1, None) \<Rightarrow> se1
      | (se1, Some c) \<Rightarrow> handleOrganize_settle_keyed c out now today se1)"


section \<open>The organize button\<close>

text \<open>\<open>copyToClipboard\<close> (lines 93 to 98), as far as the cells go.\<close>

definition copyToClipboard :: "'a app_state_scheme \<Rightarrow> 'a app_state_scheme" where
  "copyToClipboard s = (if \<not> truthy (organizedContent s) then s else s\<lparr>showCopyToast := True\<rparr>)"

text \<open>
  Modelled from the spec: the \<open>Button\<close> component (components/Button) is not among the
  sources. The spec has a conversion that cannot be started while one is in flight, and
  the source passes \<open>disabled\<close> to the button for that (line 229): a click on a disabled
  button runs no handler, a click on an enabled one runs \<open>onClick\<close>.
\<close>

definition Button_click :: "bool \<Rightarrow> ('c \<Rightarrow> 'c) \<Rightarrow> 'c \<Rightarrow> 'c" where
  "Button_click disabled onClick x = (if disabled then x else onClick x)"

text \<open>
  A configuration: the cells, the outside world and the \<open>handleOrganize\<close> runs that are
  suspended at their \<open>await\<close>. The list could hold any number of them.
\<close>

record config =
  cells :: app_state
  world :: env
  inflight :: "captured list"

text \<open>
  The handler of the organize button, started from a configuration. It reads the input,
  the template and the history of its render, which a handler started before it in the
  same render has not changed.
\<close>

definition organize_onClick :: "config \<Rightarrow> config" where
  "organize_onClick cfg =
     (case handleOrganize_begin (cells cfg, world cfg) of
        ((s, e), None) \<Rightarrow> cfg\<lparr>cells := s, world := e\<rparr>
      | ((s, e), Some c) \<Rightarrow> cfg\<lparr>cells := s, world := e, inflight := inflight cfg @ [c]\<rparr>)"

text \<open>The \<open>disabled\<close> expression of the organize button (line 229).\<close>

definition organize_disabled :: "'a app_state_scheme \<Rightarrow> bool" where
  "organize_disabled s \<longleftrightarrow> \<not> truthy (trim (inputText s)) \<or> isProcessing s"

text \<open>
  The user's request for a conversion: a click on the organize button (lines 226 to 233)
  in a render that shows the cells of the configuration.
\<close>

definition startConversion :: "config \<Rightarrow> config" where
  "startConversion cfg = Button_click (organize_disabled (cells cfg)) organize_onClick cfg"


section \<open>Sequences of appends and sample data\<close>

text \<open>
  Successive appends: each \<open>saveToHistory\<close> is the callback of the render that followed
  the append before it, so it sees the history that append left.
\<close>

definition saveAll ::
  "InterviewLog list \<Rightarrow> 'a app_state_scheme \<times> env \<Rightarrow> 'a app_state_scheme \<times> env" where
  "saveAll ls se = fold (\<lambda>l (s, e). saveToHistory (history s) l (s, e)) ls se"

text \<open>A log that differs from the others of its kind in its \<open>id\<close> only.\<close>

definition sampleLog :: "nat \<Rightarrow> InterviewLog" where
  "sampleLog n =
     \<lparr> id_log = toString n, title = [0x41], date = [0x32], originalText = [0x41],
       organizedText = [0x42], template_log = HR \<rparr>"

text \<open>A first run: nothing stored, nothing shown, nothing requested.\<close>

definition emptyEnv :: env where
  "emptyEnv = \<lparr>storage = None, alerts = [], requests = []\<rparr>"

text \<open>The numbers of 21 conversions, oldest first.\<close>

definition twentyOne :: "nat list" where
  "twentyOne = [1, 2, 3, 4, 5, 6, 7, 8, 9, 10, 11, 12, 13, 14, 15, 16, 17, 18, 19, 20, 21]"

text \<open>The text \<open>Kim\<close> between a space and a line feed.\<close>

definition paddedInput :: jsstring where
  "paddedInput = [0x20, 0x4B, 0x69, 0x6D, 0x0A]"

text \<open>The text \<open>Met with Kim today, discussed project wrap-up\<close>, 45 code units long.\<close>

definition longInput :: jsstring where
  "longInput =
     [0x4D, 0x65, 0x74, 0x20, 0x77, 0x69, 0x74, 0x68, 0x20, 0x4B, 0x69, 0x6D, 0x20, 0x74,
      0x6F, 0x64, 0x61, 0x79, 0x2C, 0x20, 0x64, 0x69, 0x73, 0x63, 0x75, 0x73, 0x73, 0x65,
      0x64, 0x20, 0x70, 0x72, 0x6F, 0x6A, 0x65, 0x63, 0x74, 0x20, 0x77, 0x72, 0x61, 0x70,
      0x2D, 0x75, 0x70]"

text \<open>A space, a tab, a line feed and an ideographic space.\<close>

definition blankInput :: jsstring where
  "blankInput = [0x20, 0x09, 0x0A, 0x3000]"

text \<open>States of the two components with blank and with non-blank input.\<close>

definition blankState :: app_state where
  "blankState = initial_state\<lparr>inputText := blankInput, organizedContent := [0x42]\<rparr>"

definition keyedState :: "jsstring \<Rightarrow> keyed_state" where
  "keyedState txt =
     \<lparr> inputText = txt, organizedContent = [0x42], template = COUNSELING,
       isProcessing = False, history = [sampleLog 1], selectedLogId = Some (toString 1),
       showCopyToast = False, isKeySelected = Some True \<rparr>"

definition blankConfig :: config where
  "blankConfig = \<lparr>cells = blankState, world = emptyEnv, inflight = []\<rparr>"

definition browsingState :: app_state where
  "browsingState =
     \<lparr> inputText = paddedInput, organizedContent = [0x42], template = CASUAL,
       isProcessing = False, history = [sampleLog 3, sampleLog 2, sampleLog 1],
       selectedLogId = Some (toString 2), showCopyToast = False \<rparr>"

definition idleEnv :: env where
  "idleEnv =
     \<lparr> storage = Some (Serialized [sampleLog 3, sampleLog 2, sampleLog 1]), alerts = [],
       requests = [] \<rparr>"

definition draftState :: app_state where
  "draftState =
     \<lparr> inputText = longInput, organizedContent = [0x4F, 0x4C, 0x44], template = PROFESSIONAL,
       isProcessing = False, history = [sampleLog 2, sampleLog 1],
       selectedLogId = Some (toString 2), showCopyToast = False \<rparr>"

text \<open>The text \<open>REPORT...\<close> as the answer of the service.\<close>

definition reportText :: jsstring where
  "reportText = [0x52, 0x45, 0x50, 0x4F, 0x52, 0x54, 0x2E, 0x2E, 0x2E]"



section \<open>Facts about strings\<close>

lemma all_dropWhile: "(\<forall>x\<in>set (dropWhile P s). P x) \<longleftrightarrow> (\<forall>x\<in>set s. P x)"
  by (induction s) auto

lemma trim_empty_iff: "trim s = [] \<longleftrightarrow> (\<forall>c\<in>set s. isWhiteSpace c)"
  by (simp add: trim_def all_dropWhile)

section \<open>Facts about the history store\<close>

lemma appendLog_Cons: "appendLog l h = l # take 19 h"
  by (simp add: appendLog_def slice0_def take_Cons')

lemma fold_appendLog_take: "fold appendLog ls (take 20 h) = take 20 (rev ls @ h)"
proof (induction ls arbitrary: h)
  case Nil
  show ?case by simp
next
  case (Cons l ls)
  have "fold appendLog (l # ls) (take 20 h) = fold appendLog ls (take 20 (l # h))"
    by (simp add: appendLog_def slice0_def take_Cons')
  also have "\<dots> = take 20 (rev ls @ l # h)"
    by (rule Cons.IH)
  finally show ?case by simp
qed

lemma fold_appendLog: "ls \<noteq> [] \<Longrightarrow> fold appendLog ls h = take 20 (rev ls @ h)"
proof (cases ls)
  case Nil
  assume "ls \<noteq> []"
  with Nil show ?thesis by simp
next
  case (Cons l ls')
  have "fold appendLog ls h = fold appendLog ls' (take 20 (l # h))"
    by (simp add: Cons appendLog_def slice0_def)
  also have "\<dots> = take 20 (rev ls' @ l # h)"
    by (rule fold_appendLog_take)
  finally show ?thesis by (simp add: Cons)
qed

lemma saveToHistory_eq:
  "saveToHistory h l (s, e) =
     (s\<lparr>history := appendLog l h\<rparr>, e\<lparr>storage := Some (Serialized (appendLog l h))\<rparr>)"
  by (simp add: saveToHistory_def Let_def)

lemma history_saveAll: "history (fst (saveAll ls (s, e))) = fold appendLog ls (history s)"
  unfolding saveAll_def
  by (induction ls arbitrary: s e) (simp_all add: saveToHistory_eq)

lemma take_rev_21: "length ls = 21 \<Longrightarrow> take 20 (rev ls @ h) = rev (tl ls)"
proof -
  assume len: "length ls = 21"
  then obtain l ls' where ls: "ls = l # ls'" by (cases ls) auto
  with len have "length ls' = 20" by simp
  then show ?thesis by (simp add: ls)
qed

lemma history_saveAll_take:
  "ls \<noteq> [] \<Longrightarrow> history (fst (saveAll ls (s, e))) = take 20 (rev ls @ history s)"
  by (simp add: history_saveAll fold_appendLog)

text \<open>
  C2. Whatever the history was, an append leaves at most 20 records with the new one at
  index 0 and the 19 newest of the old ones behind it, so that a full history loses its
  last, oldest record; the cell and the storage slot both receive that list. After any
  non-empty sequence of appends the history is the first 20 of the appended records,
  newest first, followed by the old ones, and after 21 appends it is appends 2 to 21 in
  reverse order.
\<close>

theorem C2_history_bounded:
  "length (appendLog l h) \<le> 20
   \<and> appendLog l h ! 0 = l
   \<and> appendLog l h = l # take 19 h
   \<and> (length h = 20 \<longrightarrow> appendLog l h = l # butlast h)
   \<and> saveToHistory h l (s, e) =
       (s\<lparr>history := appendLog l h\<rparr>, e\<lparr>storage := Some (Serialized (appendLog l h))\<rparr>)
   \<and> (ls \<noteq> [] \<longrightarrow>
        history (fst (saveAll ls (s, e))) = take 20 (rev ls @ history s)
        \<and> length (history (fst (saveAll ls (s, e)))) \<le> 20
        \<and> history (fst (saveAll ls (s, e))) ! 0 = last ls)
   \<and> (length ls = 21 \<longrightarrow> history (fst (saveAll ls (s, e))) = rev (tl ls))"
proof -
  have bound: "length (appendLog l h) \<le> 20"
    by (simp add: appendLog_def slice0_def)
  have head: "appendLog l h ! 0 = l"
    by (simp add: appendLog_Cons)
  have full: "length h = 20 \<longrightarrow> appendLog l h = l # butlast h"
    by (simp add: appendLog_Cons butlast_conv_take)
  have seq: "ls \<noteq> [] \<longrightarrow>
        history (fst (saveAll ls (s, e))) = take 20 (rev ls @ history s)
        \<and> length (history (fst (saveAll ls (s, e)))) \<le> 20
        \<and> history (fst (saveAll ls (s, e))) ! 0 = last ls"
  proof
    assume ne: "ls \<noteq> []"
    then have eq: "history (fst (saveAll ls (s, e))) = take 20 (rev ls @ history s)"
      by (rule history_saveAll_take)
    from ne have "rev ls \<noteq> []" by simp
    then have "take 20 (rev ls @ history s) ! 0 = rev ls ! 0"
      by (cases "rev ls") simp_all
    also from ne have "\<dots> = last ls"
      by (simp add: last_conv_nth rev_nth)
    finally show "history (fst (saveAll ls (s, e))) = take 20 (rev ls @ history s)
        \<and> length (history (fst (saveAll ls (s, e)))) \<le> 20
        \<and> history (fst (saveAll ls (s, e))) ! 0 = last ls"
      by (simp add: eq)
  qed
  have twentyone: "length ls = 21 \<longrightarrow> history (fst (saveAll ls (s, e))) = rev (tl ls)"
  proof
    assume len: "length ls = 21"
    then have "ls \<noteq> []" by auto
    then have "history (fst (saveAll ls (s, e))) = take 20 (rev ls @ history s)"
      by (rule history_saveAll_take)
    also have "\<dots> = rev (tl ls)"
      by (rule take_rev_21 [OF len])
    finally show "history (fst (saveAll ls (s, e))) = rev (tl ls)" .
  qed
  from bound head full seq twentyone show ?thesis
    by (simp only: appendLog_Cons saveToHistory_eq simp_thms)
qed

theorem C2_history_bounded_witness:
  "length (map sampleLog (tl twentyOne)) = 20
   \<and> appendLog (sampleLog 1) (map sampleLog (tl twentyOne))
       = sampleLog 1 # map sampleLog (butlast (tl twentyOne))
   \<and> map sampleLog twentyOne \<noteq> []
   \<and> length (map sampleLog twentyOne) = 21
   \<and> history (fst (saveAll (map sampleLog twentyOne) (initial_state, emptyEnv)))
       = map sampleLog [21, 20, 19, 18, 17, 16, 15, 14, 13, 12, 11, 10, 9, 8, 7, 6, 5, 4, 3, 2]"
  using C2_history_bounded [of "sampleLog 1" "map sampleLog (tl twentyOne)" initial_state emptyEnv
      "map sampleLog twentyOne"]
  by (simp add: twentyOne_def)


section \<open>Title\<close>

text \<open>
  C6. An input of at most 25 code units gives its trimmed self as title, with no
  ellipsis; a longer one gives its first 25 code units, trimmed, followed by three full
  stops. The title of the log that a conversion builds is derived in this way from the
  input of the conversion.
\<close>

theorem C6_title_derivation:
  "(length txt \<le> 25 \<longrightarrow> deriveTitle txt = trim txt)
   \<and> (length txt > 25 \<longrightarrow> deriveTitle txt = trim (take 25 txt) @ [0x2E, 0x2E, 0x2E])
   \<and> title (newLog c result now today) = deriveTitle (cap_inputText c)"
  by (simp add: deriveTitle_def slice0_def ellipsis_def newLog_def)

theorem C6_title_derivation_witness:
  "length paddedInput \<le> 25 \<and> deriveTitle paddedInput = [0x4B, 0x69, 0x6D]
   \<and> length longInput > 25
   \<and> deriveTitle longInput =
       [0x4D, 0x65, 0x74, 0x20, 0x77, 0x69, 0x74, 0x68, 0x20, 0x4B, 0x69, 0x6D, 0x20, 0x74,
        0x6F, 0x64, 0x61, 0x79, 0x2C, 0x20, 0x64, 0x69, 0x73, 0x63, 0x75, 0x2E, 0x2E, 0x2E]"
  using C6_title_derivation [of paddedInput] C6_title_derivation [of longInput]
  by (simp add: paddedInput_def longInput_def trim_def isWhiteSpace_def)


section \<open>Facts about the controller\<close>

lemma handleOrganize_begin_blank:
  "\<forall>c\<in>set (inputText s). isWhiteSpace c \<Longrightarrow> handleOrganize_begin (s, e) = ((s, e), None)"
  by (simp add: handleOrganize_begin_def truthy_def trim_empty_iff)

lemma handleOrganize_begin_truthy:
  "truthy (trim (inputText s)) \<Longrightarrow>
   handleOrganize_begin (s, e) =
     ((s\<lparr>isProcessing := True\<rparr>, e\<lparr>requests := requests e @ [(inputText s, template s)]\<rparr>),
      Some \<lparr>cap_inputText = inputText s, cap_template = template s, cap_history = history s\<rparr>)"
  by (simp add: handleOrganize_begin_def)

lemma organize_success_eq:
  "organize_success c r now today (s, e) =
     (s\<lparr>organizedContent := r,
        history := appendLog (newLog c r now today) (cap_history c),
        selectedLogId := Some (id_log (newLog c r now today))\<rparr>,
      e\<lparr>storage := Some (Serialized (appendLog (newLog c r now today) (cap_history c)))\<rparr>)"
  by (simp add: organize_success_def saveToHistory_eq Let_def)

lemma handleOrganize_settle_Resolved:
  "handleOrganize_settle c (Resolved r) now today (s, e) =
     (s\<lparr>organizedContent := r,
        history := appendLog (newLog c r now today) (cap_history c),
        selectedLogId := Some (id_log (newLog c r now today)),
        isProcessing := False\<rparr>,
      e\<lparr>storage := Some (Serialized (appendLog (newLog c r now today) (cap_history c)))\<rparr>)"
  by (simp add: handleOrganize_settle_def organize_success_eq)

lemma handleOrganize_settle_Rejected:
  "handleOrganize_settle c (Rejected err) now today (s, e) =
     (s\<lparr>isProcessing := False\<rparr>, e\<lparr>alerts := alerts e @ [alertText err]\<rparr>)"
  by (simp add: handleOrganize_settle_def)

lemma handleOrganize_settle_keyed_Resolved:
  "handleOrganize_settle_keyed c (Resolved r) now today (s, e) =
     (s\<lparr>organizedContent := r,
        history := appendLog (newLog c r now today) (cap_history c),
        selectedLogId := Some (id_log (newLog c r now today)),
        isProcessing := False\<rparr>,
      e\<lparr>storage := Some (Serialized (appendLog (newLog c r now today) (cap_history c)))\<rparr>)"
  by (simp add: handleOrganize_settle_keyed_def organize_success_eq)

lemma toString_digit: "n < 10 \<Longrightarrow> toString n = [digit n]"
  by (simp add: toString.simps)

section \<open>Blank input\<close>

text \<open>
  C7. When the input is empty or holds white space only, a click on the organize button
  and a run of \<open>handleOrganize\<close> itself, in either component, return the cells and the
  world exactly as they were: no cell changes, no request is added, no alert is shown,
  and nothing is left suspended.
\<close>

theorem C7_blank_input_noop:
  "((\<forall>c\<in>set (inputText (cells cfg)). isWhiteSpace c) \<longrightarrow>
      startConversion cfg = cfg \<and> organize_onClick cfg = cfg)
   \<and> ((\<forall>c\<in>set (inputText s). isWhiteSpace c) \<longrightarrow>
      handleOrganize_begin (s, e) = ((s, e), None)
      \<and> handleOrganize out now today (s, e) = (s, e))
   \<and> ((\<forall>c\<in>set (inputText k). isWhiteSpace c) \<longrightarrow>
      handleOrganize_keyed out now today (k, e) = (k, e))"
  by (simp add: startConversion_def Button_click_def organize_disabled_def organize_onClick_def
      handleOrganize_def handleOrganize_keyed_def handleOrganize_begin_blank)


theorem C7_blank_input_noop_witness:
  "list_all isWhiteSpace (inputText (cells blankConfig))
   \<and> startConversion blankConfig = blankConfig
   \<and> list_all isWhiteSpace (inputText blankState)
   \<and> handleOrganize (Resolved [0x52]) 7 [0x32] (blankState, emptyEnv) = (blankState, emptyEnv)
   \<and> list_all isWhiteSpace (inputText (keyedState blankInput))
   \<and> handleOrganize_keyed (Resolved [0x52]) 7 [0x32] (keyedState blankInput, emptyEnv)
       = (keyedState blankInput, emptyEnv)"
  using C7_blank_input_noop [of blankConfig blankState emptyEnv "Resolved [0x52]" 7 "[0x32]"
      "keyedState blankInput"]
  by (simp add: blankConfig_def blankState_def keyedState_def blankInput_def isWhiteSpace_def)

section \<open>Deleting a history entry\<close>

lemma deleteHistoryItem_confirmed:
  "deleteHistoryItem True i (s, e) =
     (if selectedLogId s = Some i
      then handleNewLog (s\<lparr>history := filter (\<lambda>h. id_log h \<noteq> i) (history s)\<rparr>)
      else s\<lparr>history := filter (\<lambda>h. id_log h \<noteq> i) (history s)\<rparr>,
      e\<lparr>storage := Some (Serialized (filter (\<lambda>h. id_log h \<noteq> i) (history s)))\<rparr>)"
  by (simp add: deleteHistoryItem_def Let_def)

lemma history_deleteHistoryItem:
  "history (fst (deleteHistoryItem True i (s, e))) = filter (\<lambda>h. id_log h \<noteq> i) (history s)"
  by (simp add: deleteHistoryItem_confirmed handleNewLog_def)

lemma storage_deleteHistoryItem:
  "storage (snd (deleteHistoryItem True i (s, e)))
     = Some (Serialized (filter (\<lambda>h. id_log h \<noteq> i) (history s)))"
  by (simp add: deleteHistoryItem_confirmed)

text \<open>
  C8. A confirmed deletion of \<open>i\<close> leaves in the history cell exactly the records whose
  id is not \<open>i\<close>, in their old order, and writes the same list to the storage slot, so
  that neither the cell, nor the slot, nor a history loaded from the slot afterwards holds
  a record with id \<open>i\<close>. When no record has id \<open>i\<close> the history is as it was.
\<close>

theorem C8_remove:
  "history (fst (deleteHistoryItem True i (s, e))) = filter (\<lambda>h. id_log h \<noteq> i) (history s)
   \<and> storage (snd (deleteHistoryItem True i (s, e)))
       = Some (Serialized (history (fst (deleteHistoryItem True i (s, e)))))
   \<and> (\<forall>h\<in>set (history (fst (deleteHistoryItem True i (s, e)))). id_log h \<noteq> i)
   \<and> (\<forall>h\<in>set (history (loadHistory (snd (deleteHistoryItem True i (s, e))) s0)). id_log h \<noteq> i)
   \<and> ((\<forall>h\<in>set (history s). id_log h \<noteq> i) \<longrightarrow>
        history (fst (deleteHistoryItem True i (s, e))) = history s)"
proof -
  let ?kept = "filter (\<lambda>h. id_log h \<noteq> i) (history s)"
  have cell: "history (fst (deleteHistoryItem True i (s, e))) = ?kept"
    by (rule history_deleteHistoryItem)
  have slot: "storage (snd (deleteHistoryItem True i (s, e))) = Some (Serialized ?kept)"
    by (rule storage_deleteHistoryItem)
  have loaded: "history (loadHistory (snd (deleteHistoryItem True i (s, e))) s0) = ?kept"
    by (simp add: loadHistory_def slot)
  have absent: "(\<forall>h\<in>set (history s). id_log h \<noteq> i) \<longrightarrow> ?kept = history s"
    by (simp add: filter_id_conv)
  from absent show ?thesis
    by (simp add: cell slot loaded)
qed

theorem C8_remove_witness:
  "history (fst (deleteHistoryItem True (toString 2) (browsingState, idleEnv)))
     = [sampleLog 3, sampleLog 1]
   \<and> storage (snd (deleteHistoryItem True (toString 2) (browsingState, idleEnv)))
     = Some (Serialized [sampleLog 3, sampleLog 1])
   \<and> toString 9 \<notin> id_log ` set (history browsingState)
   \<and> history (fst (deleteHistoryItem True (toString 9) (browsingState, idleEnv)))
     = history browsingState"
  using C8_remove [of "toString 2" browsingState idleEnv initial_state]
    C8_remove [of "toString 9" browsingState idleEnv initial_state]
  by (simp add: browsingState_def sampleLog_def toString_digit digit_def)

text \<open>
  C9. A confirmed deletion of the selected record's id empties the input and the result,
  clears the selection and sets the template back to the default; a confirmed deletion of
  any other id changes the history cell only.
\<close>

theorem C9_delete_selected:
  "(selectedLogId s = Some i \<longrightarrow>
      inputText (fst (deleteHistoryItem True i (s, e))) = []
      \<and> organizedContent (fst (deleteHistoryItem True i (s, e))) = []
      \<and> selectedLogId (fst (deleteHistoryItem True i (s, e))) = None
      \<and> template (fst (deleteHistoryItem True i (s, e))) = PROFESSIONAL)
   \<and> (selectedLogId s \<noteq> Some i \<longrightarrow>
      fst (deleteHistoryItem True i (s, e))
        = s\<lparr>history := filter (\<lambda>h. id_log h \<noteq> i) (history s)\<rparr>)"
  by (simp add: deleteHistoryItem_confirmed handleNewLog_def)


theorem C9_delete_selected_witness:
  "selectedLogId browsingState = Some (toString 2)
   \<and> fst (deleteHistoryItem True (toString 2) (browsingState, idleEnv))
       = initial_state\<lparr>history := [sampleLog 3, sampleLog 1]\<rparr>
   \<and> selectedLogId browsingState \<noteq> Some (toString 3)
   \<and> fst (deleteHistoryItem True (toString 3) (browsingState, idleEnv))
       = browsingState\<lparr>history := [sampleLog 2, sampleLog 1]\<rparr>"
proof -
  have sel: "selectedLogId browsingState = Some (toString 2)"
    by (simp add: browsingState_def)
  have other: "selectedLogId browsingState \<noteq> Some (toString 3)"
    by (simp add: browsingState_def toString_digit digit_def)
  have kept2: "filter (\<lambda>h. id_log h \<noteq> toString 2) (history browsingState)
      = [sampleLog 3, sampleLog 1]"
    by (simp add: browsingState_def sampleLog_def toString_digit digit_def)
  have kept3: "filter (\<lambda>h. id_log h \<noteq> toString 3) (history browsingState)
      = [sampleLog 2, sampleLog 1]"
    by (simp add: browsingState_def sampleLog_def toString_digit digit_def)
  from C9_delete_selected [of browsingState "toString 2" idleEnv] sel
  have blank: "inputText (fst (deleteHistoryItem True (toString 2) (browsingState, idleEnv))) = []
      \<and> organizedContent (fst (deleteHistoryItem True (toString 2) (browsingState, idleEnv))) = []
      \<and> selectedLogId (fst (deleteHistoryItem True (toString 2) (browsingState, idleEnv))) = None
      \<and> template (fst (deleteHistoryItem True (toString 2) (browsingState, idleEnv))) = PROFESSIONAL"
    by blast
  have rest: "fst (deleteHistoryItem True (toString 2) (browsingState, idleEnv))
      = initial_state\<lparr>history := [sampleLog 3, sampleLog 1]\<rparr>"
    using blank kept2
    by (simp add: deleteHistoryItem_confirmed sel handleNewLog_def initial_state_def
        browsingState_def)
  from C9_delete_selected [of browsingState "toString 3" idleEnv] other kept3
  have "fst (deleteHistoryItem True (toString 3) (browsingState, idleEnv))
      = browsingState\<lparr>history := [sampleLog 2, sampleLog 1]\<rparr>"
    by simp
  with sel other rest show ?thesis by simp
qed


lemma truthy_trim_longInput: "truthy (trim longInput)"
  by (simp add: truthy_def trim_empty_iff longInput_def isWhiteSpace_def)

lemma handleOrganize_Resolved:
  "truthy (trim (inputText s)) \<Longrightarrow>
   handleOrganize (Resolved r) now today (s, e) =
     (s\<lparr>isProcessing := False, organizedContent := r,
        history := \<lparr> id_log = toString now, title = deriveTitle (inputText s), date = today,
                     originalText = inputText s, organizedText = r,
                     template_log = template s \<rparr> # take 19 (history s),
        selectedLogId := Some (toString now)\<rparr>,
      e\<lparr>requests := requests e @ [(inputText s, template s)],
        storage := Some (Serialized
          (\<lparr> id_log = toString now, title = deriveTitle (inputText s), date = today,
             originalText = inputText s, organizedText = r,
             template_log = template s \<rparr> # take 19 (history s)))\<rparr>)"
  by (simp add: handleOrganize_def handleOrganize_begin_truthy handleOrganize_settle_Resolved
      newLog_def appendLog_Cons)

lemma handleOrganize_keyed_Resolved:
  "truthy (trim (inputText s)) \<Longrightarrow>
   handleOrganize_keyed (Resolved r) now today (s, e) =
     (s\<lparr>isProcessing := False, organizedContent := r,
        history := \<lparr> id_log = toString now, title = deriveTitle (inputText s), date = today,
                     originalText = inputText s, organizedText = r,
                     template_log = template s \<rparr> # take 19 (history s),
        selectedLogId := Some (toString now)\<rparr>,
      e\<lparr>requests := requests e @ [(inputText s, template s)],
        storage := Some (Serialized
          (\<lparr> id_log = toString now, title = deriveTitle (inputText s), date = today,
             originalText = inputText s, organizedText = r,
             template_log = template s \<rparr> # take 19 (history s)))\<rparr>)"
  by (simp add: handleOrganize_keyed_def handleOrganize_begin_truthy
      handleOrganize_settle_keyed_Resolved newLog_def appendLog_Cons)

section \<open>A successful conversion\<close>

text \<open>
  C3. When the input is not blank and the service resolves with \<open>r\<close>, a run of
  \<open>handleOrganize\<close>, in either component, puts at index 0 of the history a log whose
  original text is the input as it was, whose organized text is \<open>r\<close> and whose template
  is the selected one; the displayed result becomes \<open>r\<close> and the selection the id of
  that log. The same holds of the suspended rest of the handler, for the input and the
  template it captured, whatever the cells are when the service resolves.
\<close>

theorem C3_success_record:
  "(truthy (trim (inputText s)) \<longrightarrow>
      originalText (history (fst (handleOrganize (Resolved r) now today (s, e))) ! 0) = inputText s
      \<and> organizedText (history (fst (handleOrganize (Resolved r) now today (s, e))) ! 0) = r
      \<and> template_log (history (fst (handleOrganize (Resolved r) now today (s, e))) ! 0) = template s
      \<and> organizedContent (fst (handleOrganize (Resolved r) now today (s, e))) = r
      \<and> selectedLogId (fst (handleOrganize (Resolved r) now today (s, e)))
          = Some (id_log (history (fst (handleOrganize (Resolved r) now today (s, e))) ! 0))
      \<and> history (fst (handleOrganize (Resolved r) now today (s, e))) \<noteq> [])
   \<and> (truthy (trim (inputText k)) \<longrightarrow>
      originalText (history (fst (handleOrganize_keyed (Resolved r) now today (k, e))) ! 0) = inputText k
      \<and> organizedText (history (fst (handleOrganize_keyed (Resolved r) now today (k, e))) ! 0) = r
      \<and> template_log (history (fst (handleOrganize_keyed (Resolved r) now today (k, e))) ! 0) = template k
      \<and> organizedContent (fst (handleOrganize_keyed (Resolved r) now today (k, e))) = r
      \<and> selectedLogId (fst (handleOrganize_keyed (Resolved r) now today (k, e)))
          = Some (id_log (history (fst (handleOrganize_keyed (Resolved r) now today (k, e))) ! 0))
      \<and> history (fst (handleOrganize_keyed (Resolved r) now today (k, e))) \<noteq> [])
   \<and> handleOrganize_settle c (Resolved r) now today (s2, e2) =
       (s2\<lparr>organizedContent := r,
           history := \<lparr> id_log = toString now, title = deriveTitle (cap_inputText c),
                        date = today, originalText = cap_inputText c, organizedText = r,
                        template_log = cap_template c \<rparr> # take 19 (cap_history c),
           selectedLogId := Some (toString now),
           isProcessing := False\<rparr>,
        e2\<lparr>storage := Some (Serialized
           (\<lparr> id_log = toString now, title = deriveTitle (cap_inputText c),
              date = today, originalText = cap_inputText c, organizedText = r,
              template_log = cap_template c \<rparr> # take 19 (cap_history c)))\<rparr>)"
  by (simp add: handleOrganize_Resolved handleOrganize_keyed_Resolved
      handleOrganize_settle_Resolved newLog_def appendLog_Cons)

theorem C3_success_record_witness:
  "truthy (trim (inputText draftState))
   \<and> originalText (history (fst (handleOrganize (Resolved reportText) 7 [0x32] (draftState, idleEnv))) ! 0)
       = longInput
   \<and> organizedText (history (fst (handleOrganize (Resolved reportText) 7 [0x32] (draftState, idleEnv))) ! 0)
       = reportText
   \<and> template_log (history (fst (handleOrganize (Resolved reportText) 7 [0x32] (draftState, idleEnv))) ! 0)
       = PROFESSIONAL
   \<and> organizedContent (fst (handleOrganize (Resolved reportText) 7 [0x32] (draftState, idleEnv)))
       = reportText
   \<and> truthy (trim (inputText (keyedState longInput)))
   \<and> organizedText (history (fst (handleOrganize_keyed (Resolved reportText) 7 [0x32]
         (keyedState longInput, idleEnv))) ! 0) = reportText"
proof -
  have fields: "inputText draftState = longInput" "template draftState = PROFESSIONAL"
    "inputText (keyedState longInput) = longInput"
    by (simp_all add: draftState_def keyedState_def)
  have t: "truthy (trim (inputText draftState))"
    and tk: "truthy (trim (inputText (keyedState longInput)))"
    by (simp_all add: fields truthy_trim_longInput)
  note whole = C3_success_record [of draftState reportText 7 "[0x32]" idleEnv
      "keyedState longInput"
      "\<lparr>cap_inputText = longInput, cap_template = PROFESSIONAL, cap_history = []\<rparr>"
      draftState idleEnv]
  from whole t tk show ?thesis
    by (simp add: fields)
qed


section \<open>A failed conversion\<close>

lemma handleOrganize_Rejected:
  "truthy (trim (inputText s)) \<Longrightarrow>
   handleOrganize (Rejected err) now today (s, e) =
     (s\<lparr>isProcessing := False\<rparr>,
      e\<lparr>requests := requests e @ [(inputText s, template s)],
        alerts := alerts e @ [alertText err]\<rparr>)"
  by (simp add: handleOrganize_def handleOrganize_begin_truthy handleOrganize_settle_Rejected)

text \<open>
  C4. When the service rejects, the rest of the first component's handler changes no cell
  but the processing flag, which it clears, and does nothing to the world but show one
  alert: the message of the thrown Error, or the generic message when the thrown value is
  not an Error. A whole run on a non-blank input therefore ends with input, result,
  template, history and selection as they were before the click, with the flag cleared
  and the storage slot untouched.
\<close>

theorem C4_failure_preserves_state:
  "handleOrganize_settle c (Rejected err) now today (s2, e2) =
     (s2\<lparr>isProcessing := False\<rparr>, e2\<lparr>alerts := alerts e2 @ [alertText err]\<rparr>)
   \<and> alertText (ErrorObj m) = m
   \<and> alertText Nullish = genericErrorMessage
   \<and> alertText (OtherValue p) = genericErrorMessage
   \<and> (truthy (trim (inputText s)) \<longrightarrow>
        inputText (fst (handleOrganize (Rejected err) now today (s, e))) = inputText s
        \<and> organizedContent (fst (handleOrganize (Rejected err) now today (s, e))) = organizedContent s
        \<and> template (fst (handleOrganize (Rejected err) now today (s, e))) = template s
        \<and> history (fst (handleOrganize (Rejected err) now today (s, e))) = history s
        \<and> selectedLogId (fst (handleOrganize (Rejected err) now today (s, e))) = selectedLogId s
        \<and> isProcessing (fst (handleOrganize (Rejected err) now today (s, e))) = False
        \<and> fst (handleOrganize (Rejected err) now today (s, e)) = s\<lparr>isProcessing := False\<rparr>
        \<and> storage (snd (handleOrganize (Rejected err) now today (s, e))) = storage e
        \<and> alerts (snd (handleOrganize (Rejected err) now today (s, e))) = alerts e @ [alertText err])"
  by (simp add: handleOrganize_Rejected handleOrganize_settle_Rejected alertText_def)

theorem C4_failure_preserves_state_witness:
  "truthy (trim (inputText draftState))
   \<and> fst (handleOrganize (Rejected (ErrorObj serviceFailureMessage)) 7 [0x32] (draftState, idleEnv))
       = draftState
   \<and> alerts (snd (handleOrganize (Rejected (ErrorObj serviceFailureMessage)) 7 [0x32]
         (draftState, idleEnv))) = [serviceFailureMessage]"
proof -
  have fields: "inputText draftState = longInput" "isProcessing draftState = False"
    "alerts idleEnv = []"
    by (simp_all add: draftState_def idleEnv_def)
  have t: "truthy (trim (inputText draftState))"
    by (simp add: fields truthy_trim_longInput)
  have idle: "draftState\<lparr>isProcessing := False\<rparr> = draftState"
    by (simp add: draftState_def)
  note whole = C4_failure_preserves_state [of
      "\<lparr>cap_inputText = longInput, cap_template = PROFESSIONAL, cap_history = []\<rparr>"
      "ErrorObj serviceFailureMessage" 7 "[0x32]" draftState idleEnv serviceFailureMessage None
      draftState idleEnv]
  from whole t show ?thesis
    by (simp add: fields idle)
qed

section \<open>The service wrapper\<close>

lemma serviceFailureMessage_not_key: "serviceFailureMessage \<noteq> API_KEY_ERROR"
  by (simp add: serviceFailureMessage_def API_KEY_ERROR_def)

text \<open>
  C5. Whatever makes the API call fail, the wrapper rejects with an Error that carries
  its own fixed message, which is not \<open>API_KEY_ERROR\<close>. The second component's handler
  then takes the general branch: the flag is cleared, the fixed message is shown and the
  key cell is left as it was. The credential branch does run on a rejection whose message
  is \<open>API_KEY_ERROR\<close>, which the wrapper never produces from a failed call.
\<close>

theorem C5_credential_failure_masked:
  "organizeInterviewNotes None (Rejected err) = Rejected (ErrorObj serviceFailureMessage)
   \<and> serviceFailureMessage \<noteq> API_KEY_ERROR
   \<and> handleOrganize_settle_keyed c (organizeInterviewNotes None (Rejected err)) now today (s, e)
       = (s\<lparr>isProcessing := False\<rparr>, e\<lparr>alerts := alerts e @ [serviceFailureMessage]\<rparr>)
   \<and> isKeySelected (fst (handleOrganize_settle_keyed c
         (organizeInterviewNotes None (Rejected err)) now today (s, e))) = isKeySelected s
   \<and> handleOrganize_settle_keyed c (Rejected (ErrorObj API_KEY_ERROR)) now today (s, e)
       = (s\<lparr>isKeySelected := Some False, isProcessing := False\<rparr>,
          e\<lparr>alerts := alerts e @ [apiKeyAlertMessage]\<rparr>)"
  by (simp add: organizeInterviewNotes_def handleOrganize_settle_keyed_def
      serviceFailureMessage_not_key)

text \<open>
  C10. When the API call resolves, the wrapper resolves with a non-empty string: the text
  of the response when it is non-empty, and the fixed message when the text is empty or
  missing. A conversion whose response is empty thus records the fixed message as the
  organized text of its log.
\<close>

theorem C10_empty_response_fallback:
  "(\<exists>r. organizeInterviewNotes None (Resolved resp) = Resolved r \<and> r \<noteq> [])
   \<and> organizeInterviewNotes None (Resolved None) = Resolved emptyResponseMessage
   \<and> organizeInterviewNotes None (Resolved (Some [])) = Resolved emptyResponseMessage
   \<and> (t \<noteq> [] \<longrightarrow> organizeInterviewNotes None (Resolved (Some t)) = Resolved t)
   \<and> (truthy (trim (inputText s)) \<longrightarrow>
        organizedText (history (fst (handleOrganize
            (organizeInterviewNotes None (Resolved (Some []))) now today (s, e))) ! 0)
          = emptyResponseMessage
        \<and> organizedContent (fst (handleOrganize
            (organizeInterviewNotes None (Resolved (Some []))) now today (s, e)))
          = emptyResponseMessage)"
proof -
  have filled: "emptyResponseMessage \<noteq> []"
    by (simp add: emptyResponseMessage_def)
  have ex: "\<exists>r. organizeInterviewNotes None (Resolved resp) = Resolved r \<and> r \<noteq> []"
    by (cases resp) (simp_all add: organizeInterviewNotes_def truthy_def filled)
  have blank: "organizeInterviewNotes None (Resolved (Some [])) = Resolved emptyResponseMessage"
    by (simp add: organizeInterviewNotes_def truthy_def)
  from ex show ?thesis
    by (simp add: blank handleOrganize_Resolved organizeInterviewNotes_def truthy_def)
qed

theorem C10_empty_response_fallback_witness:
  "reportText \<noteq> []
   \<and> organizeInterviewNotes None (Resolved (Some reportText)) = Resolved reportText
   \<and> truthy (trim (inputText draftState))
   \<and> organizedText (history (fst (handleOrganize
         (organizeInterviewNotes None (Resolved (Some []))) 7 [0x32] (draftState, idleEnv))) ! 0)
       = emptyResponseMessage"
proof -
  have r: "reportText \<noteq> []"
    by (simp add: reportText_def)
  have t: "truthy (trim (inputText draftState))"
    by (simp add: draftState_def truthy_trim_longInput)
  from C10_empty_response_fallback [of "Some reportText" reportText draftState 7 "[0x32]" idleEnv] r t
  show ?thesis by blast
qed


section \<open>Two clicks in one render\<close>




end
